theory Spec2Isabelle
  imports Main
begin

section \<open>dboxserver: the cache between HTTP requests and the remote store\<close>

text \<open>
  \<^verbatim>\<open>src/server.go\<close> holds two revisions of the server, one after the other. Lines 1-250
  talk to the remote store through \<^verbatim>\<open>github.com/stacktic/dropbox\<close>; lines 251-520 talk to it
  through \<^verbatim>\<open>dropbox-sdk-go-unofficial\<close>. Both are embedded here. What the two share
  (the cache, the cache object, the response writer) is defined once; the handlers of lines
  251-520 keep the names of the source, the handlers of lines 1-250 carry the suffix
  \<open>_v1\<close>.

  Go strings and byte slices are \<open>char list\<close> (an Isabelle \<open>char\<close> is one byte). A
  \<^verbatim>\<open>time.Time\<close> is a natural number, \<^verbatim>\<open>Before\<close> is \<open><\<close>, and the zero value is \<open>0\<close>.
\<close>

type_synonym bytes = "char list"
type_synonym timestamp = nat

subsection \<open>Errors\<close>

text \<open>
  The Go \<^verbatim>\<open>error\<close> values the handlers tell apart: the package variable \<^verbatim>\<open>errNotCached\<close>
  (line 24, 276), \<^verbatim>\<open>*dropbox.Error\<close> with its \<^verbatim>\<open>StatusCode\<close> (type assertion of line 111),
  \<^verbatim>\<open>files.GetMetadataAPIError\<close> with the text of its \<^verbatim>\<open>APIError\<close> (type assertion of line 365),
  and any other error, of which only the text is read.
\<close>

datatype error =
    errNotCached
  | DropboxError nat string
  | GetMetadataAPIError string
  | OtherError string

fun Error_text :: "error \<Rightarrow> string" where
  "Error_text errNotCached = ''Object not found in cache''"
| "Error_text (DropboxError code msg) = msg"
| "Error_text (GetMetadataAPIError msg) = msg"
| "Error_text (OtherError msg) = msg"

subsection \<open>The cache (lines 30-64, 282-316)\<close>

text \<open>
  \<^verbatim>\<open>cacheobj\<close> is the same struct in both revisions but for the type behind the \<^verbatim>\<open>entry\<close>
  pointer, which is the type parameter. A nil pointer is \<open>None\<close>. The fields \<^verbatim>\<open>lastmod\<close> and
  \<^verbatim>\<open>etag\<close> are declared and never assigned, and \<^verbatim>\<open>contentType\<close> is assigned only by
  lines 391-420.
\<close>

record 'e cacheobj =
  data :: bytes
  lastmod :: timestamp
  etag :: string
  lastFetch :: timestamp
  contentType :: string
  exists :: bool
  entry :: "'e option"

text \<open>
  \<^verbatim>\<open>cache\<close> embeds a lock and holds the map \<^verbatim>\<open>data\<close>; the lock has no counterpart in a
  sequential model, so a cache is its map. Objects are stored by pointer, and no handler
  writes through a pointer once it is stored, so the map holds values.
\<close>

type_synonym 'e cache = "string \<rightharpoonup> 'e cacheobj"

definition newcache :: "'e cache" where
  "newcache = Map.empty"

text \<open>
  \<^verbatim>\<open>Get\<close> and \<^verbatim>\<open>Set\<close> are methods on the cache pointer: each takes the cache and returns
  its result together with the cache it leaves behind.
\<close>

definition Get :: "'e cache \<Rightarrow> string \<Rightarrow> (error + 'e cacheobj) \<times> 'e cache" where
  "Get c key = (case c key of Some obj \<Rightarrow> (Inr obj, c) | None \<Rightarrow> (Inl errNotCached, c))"

definition Set :: "'e cache \<Rightarrow> string \<Rightarrow> 'e cacheobj \<Rightarrow> error option \<times> 'e cache" where
  "Set c key obj = (None, c(key \<mapsto> obj))"

subsection \<open>Strings\<close>

text \<open>
  \<^verbatim>\<open>strings.Split(key, ".")\<close> with a separator of one byte: the pieces between the
  separators, in order; a string without the separator is its own single piece, and the
  empty string gives one empty piece.
\<close>

fun strings_Split :: "string \<Rightarrow> char \<Rightarrow> string list" where
  "strings_Split [] sep = [[]]"
| "strings_Split (c # cs) sep =
     (if c = sep then [] # strings_Split cs sep
      else (case strings_Split cs sep of
              [] \<Rightarrow> [[c]]
            | s # ss \<Rightarrow> (c # s) # ss))"

fun strings_HasPrefix :: "string \<Rightarrow> string \<Rightarrow> bool" where
  "strings_HasPrefix s [] = True"
| "strings_HasPrefix [] (p # ps) = False"
| "strings_HasPrefix (c # cs) (p # ps) = (c = p \<and> strings_HasPrefix cs ps)"

fun strings_Contains :: "string \<Rightarrow> string \<Rightarrow> bool" where
  "strings_Contains [] sub = strings_HasPrefix [] sub"
| "strings_Contains (c # cs) sub = (strings_HasPrefix (c # cs) sub \<or> strings_Contains cs sub)"

definition LF :: char where
  "LF = CHR 0x0A"

subsection \<open>The response writer and the request (net/http)\<close>

text \<open>
  The part of \<^verbatim>\<open>http.ResponseWriter\<close> the handlers use, as the response the client is
  sent. The status line is written once: by the first \<^verbatim>\<open>WriteHeader\<close>, or by the first
  \<^verbatim>\<open>Write\<close> as 200. Later \<^verbatim>\<open>WriteHeader\<close> calls are dropped, header fields set after the
  status line is out are not sent, and \<^verbatim>\<open>Write\<close> appends to the body unless the status
  forbids one. Header names are in their canonical form. A header value is a text or a time
  in \<^verbatim>\<open>http.TimeFormat\<close>, kept as the time.
\<close>

datatype hval = HText string | HDate timestamp

record response =
  header :: "string \<rightharpoonup> hval"
  status :: "nat option"
  body :: bytes

definition newResponse :: response where
  "newResponse = \<lparr>header = Map.empty, status = None, body = []\<rparr>"

definition Header_Set :: "response \<Rightarrow> string \<Rightarrow> hval \<Rightarrow> response" where
  "Header_Set w k v = (if status w = None then w\<lparr>header := (header w)(k \<mapsto> v)\<rparr> else w)"

definition WriteHeader :: "response \<Rightarrow> nat \<Rightarrow> response" where
  "WriteHeader w code = (if status w = None then w\<lparr>status := Some code\<rparr> else w)"

definition bodyAllowedForStatus :: "nat \<Rightarrow> bool" where
  "bodyAllowedForStatus s = (\<not> (100 \<le> s \<and> s \<le> 199) \<and> s \<noteq> 204 \<and> s \<noteq> 304)"

definition Write :: "response \<Rightarrow> bytes \<Rightarrow> response" where
  "Write w b =
     (let w1 = WriteHeader w 200 in
      case status w1 of
        None \<Rightarrow> w1
      | Some s \<Rightarrow> if bodyAllowedForStatus s then w1\<lparr>body := body w1 @ b\<rparr> else w1)"

text \<open>
  \<^verbatim>\<open>http.Error(w, error, code)\<close>: a plain-text reply whose body is the message and a
  newline.
\<close>

definition http_Error :: "response \<Rightarrow> string \<Rightarrow> nat \<Rightarrow> response" where
  "http_Error w msg code =
     (let w1 = Header_Set w ''Content-Type'' (HText ''text/plain; charset=utf-8'');
          w2 = Header_Set w1 ''X-Content-Type-Options'' (HText ''nosniff'');
          w3 = WriteHeader w2 code
      in Write w3 (msg @ [LF]))"

record request =
  URL_Path :: string
  Method :: string
  Header :: "string \<rightharpoonup> string"

text \<open>\<^verbatim>\<open>r.Header.Get(k)\<close>: the value of the header, the empty string when it is absent.\<close>

definition Header_Get :: "(string \<rightharpoonup> string) \<Rightarrow> string \<Rightarrow> string" where
  "Header_Get h k = (case h k of None \<Rightarrow> [] | Some v \<Rightarrow> v)"

fun StatusText :: "nat \<Rightarrow> string" where
  "StatusText code =
     (if code = 200 then ''OK''
      else if code = 302 then ''Found''
      else if code = 304 then ''Not Modified''
      else if code = 404 then ''Not Found''
      else if code = 500 then ''Internal Server Error''
      else [])"

fun htmlEscape :: "string \<Rightarrow> string" where
  "htmlEscape [] = []"
| "htmlEscape (c # cs) =
     (if c = CHR ''&'' then ''&amp;''
      else if c = CHR ''<'' then ''&lt;''
      else if c = CHR ''>'' then ''&gt;''
      else if c = CHR 0x22 then ''&#34;''
      else if c = CHR 0x27 then ''&#39;''
      else [c]) @ htmlEscape cs"

text \<open>
  \<^verbatim>\<open>http.Redirect(w, r, url, code)\<close> for an absolute URL in ASCII: the \<^verbatim>\<open>Location\<close>
  header, the status, and for a GET without a content type of its own a short HTML body.
\<close>

definition Redirect :: "response \<Rightarrow> request \<Rightarrow> string \<Rightarrow> nat \<Rightarrow> response" where
  "Redirect w r url code =
     (let hadCT = (header w ''Content-Type'' \<noteq> None);
          w1 = Header_Set w ''Location'' (HText url);
          w2 = (if \<not> hadCT \<and> (Method r = ''GET'' \<or> Method r = ''HEAD'')
                then Header_Set w1 ''Content-Type'' (HText ''text/html; charset=utf-8'')
                else w1);
          w3 = WriteHeader w2 code
      in if \<not> hadCT \<and> Method r = ''GET''
         then Write w3 (''<a href='' @ [CHR 0x22] @ htmlEscape url @ [CHR 0x22] @ ''>''
                        @ StatusText code @ ''</a>.'' @ [LF] @ [LF])
         else w3)"

subsection \<open>The process state\<close>

text \<open>
  What a handler does besides answering: reads and writes of the cache and calls of the
  remote store, in the order they happen.
\<close>

datatype event =
    CacheGet string
  | CacheSet string
  | RemoteMetadata string
  | RemoteDownload string

text \<open>
  The package variables \<^verbatim>\<open>db\<close>, \<^verbatim>\<open>lmod\<close>, \<^verbatim>\<open>dbcache\<close> and \<^verbatim>\<open>folder\<close> (lines 21-28,
  273-280), and what the handlers read from outside the program: the clock behind
  \<^verbatim>\<open>time.Now()\<close>, which stands still while one request is handled, and the table behind
  \<^verbatim>\<open>mime.TypeByExtension\<close>, which returns the empty string for an extension it does not
  know. The remote store \<open>db\<close> is the type parameter \<open>'r\<close>: its answers to the calls
  the handlers make.
\<close>

record ('e, 'r) world =
  db :: 'r
  lmod :: timestamp
  dbcache :: "'e cache"
  folder :: string
  time_Now :: timestamp
  mime_TypeByExtension :: "string \<Rightarrow> string"
  trace :: "event list"

definition dbcache_Get ::
  "('e, 'r) world \<Rightarrow> string \<Rightarrow> (error + 'e cacheobj) \<times> ('e, 'r) world" where
  "dbcache_Get wd key =
     (let (res, c) = Get (dbcache wd) key
      in (res, wd\<lparr>dbcache := c, trace := trace wd @ [CacheGet key]\<rparr>))"

definition dbcache_Set :: "('e, 'r) world \<Rightarrow> string \<Rightarrow> 'e cacheobj \<Rightarrow> ('e, 'r) world" where
  "dbcache_Set wd key obj =
     (let (err, c) = Set (dbcache wd) key obj
      in wd\<lparr>dbcache := c, trace := trace wd @ [CacheSet key]\<rparr>)"

text \<open>
  A handler returns, or it panics on a nil pointer; either way the state it has reached
  stays.
\<close>

datatype 'a exit = Return 'a | Panic 'a

fun and_then :: "'a exit \<Rightarrow> ('a \<Rightarrow> 'a exit) \<Rightarrow> 'a exit" where
  "and_then (Return x) f = f x"
| "and_then (Panic x) f = Panic x"

fun reached :: "'a exit \<Rightarrow> 'a" where
  "reached (Return x) = x"
| "reached (Panic x) = x"

text \<open>
  The block of lines 161-168 and 415-422: the type of the extension after the last dot of
  the key, or \<open>dflt\<close> when the key has no dot or the table does not know the extension.
\<close>

definition ext_type :: "(string \<Rightarrow> string) \<Rightarrow> string \<Rightarrow> string \<Rightarrow> string" where
  "ext_type tbe key dflt =
     (let s = strings_Split key (CHR ''.'')
      in if length s > 1
         then (let ext = ''.'' @ last s;
                   mtype = tbe ext
               in if mtype \<noteq> [] then mtype else dflt)
         else dflt)"

subsection \<open>The handlers of lines 251-520\<close>

text \<open>
  \<^verbatim>\<open>files.FileMetadata\<close>, with the two fields the handlers read. What \<^verbatim>\<open>GetMetadata\<close>
  returns is an \<^verbatim>\<open>IsMetadata\<close>: a file, a folder or a deleted entry; the type assertion of
  line 374 succeeds on a file only. \<^verbatim>\<open>Download\<close> returns the file's metadata and a reader,
  and \<^verbatim>\<open>ioutil.ReadAll\<close> on the reader gives the bytes or fails.
\<close>

record FileMetadata =
  Rev :: string
  ServerModified :: timestamp

datatype IsMetadata = FileMeta FileMetadata | FolderMeta | DeletedMeta

record remote =
  GetMetadata :: "string \<Rightarrow> error + IsMetadata"
  Download :: "string \<Rightarrow> error + (FileMetadata \<times> (error + bytes))"

type_synonym state = "(FileMetadata, remote) world \<times> response"

definition db_GetMetadata ::
  "(FileMetadata, remote) world \<Rightarrow> string
     \<Rightarrow> (error + IsMetadata) \<times> (FileMetadata, remote) world" where
  "db_GetMetadata wd path =
     (GetMetadata (db wd) path, wd\<lparr>trace := trace wd @ [RemoteMetadata path]\<rparr>)"

definition db_Download ::
  "(FileMetadata, remote) world \<Rightarrow> string
     \<Rightarrow> (error + (FileMetadata \<times> (error + bytes))) \<times> (FileMetadata, remote) world" where
  "db_Download wd path =
     (Download (db wd) path, wd\<lparr>trace := trace wd @ [RemoteDownload path]\<rparr>)"

text \<open>Lines 428-445. Reading \<^verbatim>\<open>obj.entry.Rev\<close> through a nil \<^verbatim>\<open>entry\<close> panics.\<close>

definition dbhandlerServe ::
  "response \<Rightarrow> request \<Rightarrow> FileMetadata cacheobj \<Rightarrow> response exit" where
  "dbhandlerServe w r obj =
     (if \<not> exists obj then Return (http_Error w ''File not found'' 404)
      else
        let w1 = Header_Set w ''Content-Type'' (HText (contentType obj)) in
        case entry obj of
          None \<Rightarrow> Panic w1
        | Some e \<Rightarrow>
            let w2 = Header_Set w1 ''Etag'' (HText (Rev e));
                mtime = ServerModified e;
                w3 = Header_Set w2 ''Last-Modified'' (HDate mtime)
            in if Header_Get (Header r) ''If-None-Match'' = Rev e
               then Return (WriteHeader w3 304)
               else Return (Write w3 (data obj)))"

text \<open>Lines 351-358. The fields the struct literal leaves out are zero.\<close>

definition dbhandlerNotFound ::
  "(FileMetadata, remote) world \<Rightarrow> response \<Rightarrow> request \<Rightarrow> string \<Rightarrow> state exit" where
  "dbhandlerNotFound wd w r key =
     (let obj = \<lparr>data = [], lastmod = 0, etag = [], lastFetch = time_Now wd,
                 contentType = [], exists = False, entry = None\<rparr>;
          wd1 = dbcache_Set wd key obj
      in map_exit (Pair wd1) (dbhandlerServe w r obj))"

text \<open>Lines 399-424, which the handler reaches when it does not reuse the old object.\<close>

definition dbhandlerMiss_download ::
  "(FileMetadata, remote) world \<Rightarrow> response \<Rightarrow> request \<Rightarrow> string
     \<Rightarrow> FileMetadata cacheobj \<Rightarrow> state exit" where
  "dbhandlerMiss_download wd w r key obj =
     (let (res, wd1) = db_Download wd (folder wd @ key) in
      case res of
        Inl err \<Rightarrow> Return (wd1, http_Error w (Error_text err) 500)
      | Inr (e, rd) \<Rightarrow>
          (case rd of
             Inl err \<Rightarrow> Return (wd1, http_Error w (Error_text err) 500)
           | Inr bs \<Rightarrow>
               let obj1 = obj\<lparr>entry := Some e, data := bs\<rparr>;
                   obj2 = obj1\<lparr>contentType :=
                            ext_type (mime_TypeByExtension wd1) key ''application/octet-stream''\<rparr>;
                   wd2 = dbcache_Set wd1 key obj2
               in map_exit (Pair wd2) (dbhandlerServe w r obj2)))"

text \<open>
  Lines 360-398. After the type assertion of line 374 fails, line 376 calls
  \<^verbatim>\<open>dbhandlerNotFound\<close> and the function goes on with a nil \<^verbatim>\<open>entry\<close>: there is no
  \<^verbatim>\<open>return\<close>. Line 389 then reads \<^verbatim>\<open>obj.entry.Rev\<close>, which panics on the nil pointer.
\<close>

definition dbhandlerMiss ::
  "(FileMetadata, remote) world \<Rightarrow> response \<Rightarrow> request \<Rightarrow> string
     \<Rightarrow> FileMetadata cacheobj option \<Rightarrow> state exit" where
  "dbhandlerMiss wd w r key oldobj =
     (let (res, wd1) = db_GetMetadata wd (folder wd @ key) in
      case res of
        Inl err \<Rightarrow>
          (case err of
             GetMetadataAPIError msg \<Rightarrow>
               if strings_Contains msg ''not_found''
               then dbhandlerNotFound wd1 w r key
               else Return (wd1, http_Error w (Error_text err) 500)
           | _ \<Rightarrow> Return (wd1, http_Error w (Error_text err) 500))
      | Inr tmp \<Rightarrow>
          let ent = (case tmp of FileMeta e \<Rightarrow> Some e | _ \<Rightarrow> None);
              ok = (ent \<noteq> None)
          in and_then (if \<not> ok then dbhandlerNotFound wd1 w r key else Return (wd1, w))
               (\<lambda>(wd2, w2).
                  let obj = \<lparr>data = [], lastmod = 0, etag = [], lastFetch = time_Now wd2,
                             contentType = [], exists = True, entry = ent\<rparr>
                  in case oldobj of
                       None \<Rightarrow> dbhandlerMiss_download wd2 w2 r key obj
                     | Some old \<Rightarrow>
                         (case entry old of
                            None \<Rightarrow> dbhandlerMiss_download wd2 w2 r key obj
                          | Some oe \<Rightarrow>
                              (case ent of
                                 None \<Rightarrow> Panic (wd2, w2)
                               | Some e \<Rightarrow>
                                   if Rev oe = Rev e
                                   then (let obj1 = obj\<lparr>data := data old,
                                                          contentType := contentType old\<rparr>;
                                             wd3 = dbcache_Set wd2 key obj1
                                         in map_exit (Pair wd3) (dbhandlerServe w2 r obj1))
                                   else dbhandlerMiss_download wd2 w2 r key obj))))"

definition robots_txt :: bytes where
  "robots_txt = ''User-agent: *'' @ [LF] @ ''Disallow: /'' @ [LF]"

text \<open>Lines 447-480.\<close>

definition dbhandler ::
  "(FileMetadata, remote) world \<Rightarrow> response \<Rightarrow> request \<Rightarrow> state exit" where
  "dbhandler wd w r =
     (let key = URL_Path r in
      if URL_Path r = ''/robots.txt'' then Return (wd, Write w robots_txt)
      else if URL_Path r = ''/''
      then Return (wd, Redirect w r ''https://github.com/sajal/dboxserver'' 302)
      else
        let (res, wd1) = dbcache_Get wd key in
        case res of
          Inl err \<Rightarrow>
            if err = errNotCached then dbhandlerMiss wd1 w r key None
            else Return (wd1, http_Error w (Error_text err) 500)
        | Inr obj \<Rightarrow>
            if lastFetch obj < lmod wd1 then dbhandlerMiss wd1 w r key (Some obj)
            else map_exit (Pair wd1) (dbhandlerServe w r obj))"

text \<open>
  Lines 330-347, the step of the watch loop that the handlers see: after the long poll
  returns without an error, \<^verbatim>\<open>lmod\<close> becomes the current time.
\<close>

definition longpoll_invalidate :: "('e, 'r) world \<Rightarrow> ('e, 'r) world" where
  "longpoll_invalidate wd = wd\<lparr>lmod := time_Now wd\<rparr>"

subsection \<open>The handlers of lines 1-250\<close>

text \<open>
  \<^verbatim>\<open>dropbox.Entry\<close>, with the four fields the handlers read. \<^verbatim>\<open>Metadata\<close> returns an entry
  or an error; \<^verbatim>\<open>Download\<close> returns a reader, on which \<^verbatim>\<open>ioutil.ReadAll\<close> gives the bytes
  or fails.
\<close>

record Entry =
  Revision :: string
  Modified :: timestamp
  MimeType :: string
  IsDir :: bool

record remote_v1 =
  Metadata :: "string \<Rightarrow> error + Entry"
  Download_v1 :: "string \<Rightarrow> error + (error + bytes)"

type_synonym state_v1 = "(Entry, remote_v1) world \<times> response"

definition db_Metadata_v1 ::
  "(Entry, remote_v1) world \<Rightarrow> string \<Rightarrow> (error + Entry) \<times> (Entry, remote_v1) world" where
  "db_Metadata_v1 wd path =
     (Metadata (db wd) path, wd\<lparr>trace := trace wd @ [RemoteMetadata path]\<rparr>)"

definition db_Download_v1 ::
  "(Entry, remote_v1) world \<Rightarrow> string
     \<Rightarrow> (error + (error + bytes)) \<times> (Entry, remote_v1) world" where
  "db_Download_v1 wd path =
     (Download_v1 (db wd) path, wd\<lparr>trace := trace wd @ [RemoteDownload path]\<rparr>)"

text \<open>Lines 175-187. Reading \<^verbatim>\<open>obj.entry.MimeType\<close> through a nil \<^verbatim>\<open>entry\<close> panics.\<close>

definition dbhandlerServe_v1 ::
  "response \<Rightarrow> request \<Rightarrow> Entry cacheobj \<Rightarrow> response exit" where
  "dbhandlerServe_v1 w r obj =
     (if \<not> exists obj then Return (http_Error w ''File not found'' 404)
      else
        case entry obj of
          None \<Rightarrow> Panic w
        | Some e \<Rightarrow>
            let w1 = Header_Set w ''Content-Type'' (HText (MimeType e));
                w2 = Header_Set w1 ''Etag'' (HText (Revision e));
                mtime = Modified e;
                w3 = Header_Set w2 ''Last-Modified'' (HDate mtime)
            in Return (Write w3 (data obj)))"

text \<open>Lines 97-104.\<close>

definition dbhandlerNotFound_v1 ::
  "(Entry, remote_v1) world \<Rightarrow> response \<Rightarrow> request \<Rightarrow> string \<Rightarrow> state_v1 exit" where
  "dbhandlerNotFound_v1 wd w r key =
     (let obj = \<lparr>data = [], lastmod = 0, etag = [], lastFetch = time_Now wd,
                 contentType = [], exists = False, entry = None\<rparr>;
          wd1 = dbcache_Set wd key obj
      in map_exit (Pair wd1) (dbhandlerServe_v1 w r obj))"

text \<open>
  Lines 146-171. \<open>e\<close> is the entry behind \<^verbatim>\<open>obj.entry\<close>, which \<^verbatim>\<open>Metadata\<close> returned.
\<close>

definition dbhandlerMiss_download_v1 ::
  "(Entry, remote_v1) world \<Rightarrow> response \<Rightarrow> request \<Rightarrow> string
     \<Rightarrow> Entry cacheobj \<Rightarrow> Entry \<Rightarrow> state_v1 exit" where
  "dbhandlerMiss_download_v1 wd w r key obj e =
     (let (res, wd1) = db_Download_v1 wd (folder wd @ key) in
      case res of
        Inl err \<Rightarrow> Return (wd1, http_Error w (Error_text err) 500)
      | Inr rd \<Rightarrow>
          (case rd of
             Inl err \<Rightarrow> Return (wd1, http_Error w (Error_text err) 500)
           | Inr bs \<Rightarrow>
               let obj1 = obj\<lparr>data := bs\<rparr>;
                   e1 = (if MimeType e = ''application/octet-stream''
                         then e\<lparr>MimeType := ext_type (mime_TypeByExtension wd1) key (MimeType e)\<rparr>
                         else e);
                   obj2 = obj1\<lparr>entry := Some e1\<rparr>;
                   wd2 = dbcache_Set wd1 key obj2
               in map_exit (Pair wd2) (dbhandlerServe_v1 w r obj2)))"

text \<open>Lines 106-144.\<close>

definition dbhandlerMiss_v1 ::
  "(Entry, remote_v1) world \<Rightarrow> response \<Rightarrow> request \<Rightarrow> string
     \<Rightarrow> Entry cacheobj option \<Rightarrow> state_v1 exit" where
  "dbhandlerMiss_v1 wd w r key oldobj =
     (let (res, wd1) = db_Metadata_v1 wd (folder wd @ key) in
      case res of
        Inl err \<Rightarrow>
          (case err of
             DropboxError code msg \<Rightarrow>
               if code = 404
               then dbhandlerNotFound_v1 wd1 w r key
               else Return (wd1, http_Error w (Error_text err) 500)
           | _ \<Rightarrow> Return (wd1, http_Error w (Error_text err) 500))
      | Inr e \<Rightarrow>
          if IsDir e then dbhandlerNotFound_v1 wd1 w r key
          else
            let obj = \<lparr>data = [], lastmod = 0, etag = [], lastFetch = time_Now wd1,
                       contentType = [], exists = True, entry = Some e\<rparr>
            in (case oldobj of
                  None \<Rightarrow> dbhandlerMiss_download_v1 wd1 w r key obj e
                | Some old \<Rightarrow>
                    (case entry old of
                       None \<Rightarrow> dbhandlerMiss_download_v1 wd1 w r key obj e
                     | Some oe \<Rightarrow>
                         if Revision oe = Revision e
                         then (let obj1 = obj\<lparr>data := data old\<rparr>;
                                   obj2 = obj1\<lparr>entry := Some (e\<lparr>MimeType := MimeType oe\<rparr>)\<rparr>;
                                   wd2 = dbcache_Set wd1 key obj2
                               in map_exit (Pair wd2) (dbhandlerServe_v1 w r obj2))
                         else dbhandlerMiss_download_v1 wd1 w r key obj e)))"

text \<open>Lines 189-211.\<close>

definition dbhandler_v1 ::
  "(Entry, remote_v1) world \<Rightarrow> response \<Rightarrow> request \<Rightarrow> state_v1 exit" where
  "dbhandler_v1 wd w r =
     (let key = URL_Path r;
          (res, wd1) = dbcache_Get wd key
      in case res of
           Inl err \<Rightarrow>
             if err = errNotCached then dbhandlerMiss_v1 wd1 w r key None
             else Return (wd1, http_Error w (Error_text err) 500)
         | Inr obj \<Rightarrow>
             if lastFetch obj < lmod wd1 then dbhandlerMiss_v1 wd1 w r key (Some obj)
             else map_exit (Pair wd1) (dbhandlerServe_v1 w r obj))"

subsection \<open>Predicates of the properties\<close>

text \<open>
  The two paths that \<^verbatim>\<open>dbhandler\<close> of lines 447-459 answers itself are never keys of the
  cache it fills.
\<close>

definition reserved_free :: "'e cache \<Rightarrow> bool" where
  "reserved_free c = (c ''/robots.txt'' = None \<and> c ''/'' = None)"

text \<open>
  The condition of lines 132-136 and 385-389 under which the old object is reused: there
  is one, its \<^verbatim>\<open>entry\<close> is not nil, and the revisions agree.
\<close>

definition reuses :: "FileMetadata cacheobj option \<Rightarrow> FileMetadata \<Rightarrow> bool" where
  "reuses oldobj e =
     (case oldobj of
        None \<Rightarrow> False
      | Some old \<Rightarrow> (case entry old of None \<Rightarrow> False | Some oe \<Rightarrow> Rev oe = Rev e))"

definition reuses_v1 :: "Entry cacheobj option \<Rightarrow> Entry \<Rightarrow> bool" where
  "reuses_v1 oldobj e =
     (case oldobj of
        None \<Rightarrow> False
      | Some old \<Rightarrow> (case entry old of None \<Rightarrow> False | Some oe \<Rightarrow> Revision oe = Revision e))"

text \<open>
  The conditions of lines 365-366 and of lines 111-112 under which an error of the metadata
  call counts as not found.
\<close>

definition is_not_found :: "error \<Rightarrow> bool" where
  "is_not_found err =
     (case err of GetMetadataAPIError msg \<Rightarrow> strings_Contains msg ''not_found'' | _ \<Rightarrow> False)"

definition is_not_found_v1 :: "error \<Rightarrow> bool" where
  "is_not_found_v1 err = (case err of DropboxError code msg \<Rightarrow> code = 404 | _ \<Rightarrow> False)"

text \<open>The number of downloads in a trace.\<close>

definition count_downloads :: "event list \<Rightarrow> nat" where
  "count_downloads evs =
     length (filter (\<lambda>ev. case ev of RemoteDownload p \<Rightarrow> True | _ \<Rightarrow> False) evs)"

text \<open>
  A negative object carries nothing: no bytes, no content type, no entity tag, and no
  entry, which is where the revision lives.
\<close>

definition carries_nothing :: "'e cacheobj \<Rightarrow> bool" where
  "carries_nothing obj =
     (data obj = [] \<and> contentType obj = [] \<and> etag obj = [] \<and> entry obj = None)"

definition negatives_carry_nothing :: "'e cache \<Rightarrow> bool" where
  "negatives_carry_nothing c =
     (\<forall>key obj. c key = Some obj \<longrightarrow> \<not> exists obj \<longrightarrow> carries_nothing obj)"

subsection \<open>Concrete states\<close>

text \<open>
  A remote folder \<^verbatim>\<open>/Public\<close> with the files \<^verbatim>\<open>a.json\<close> and \<^verbatim>\<open>README\<close> and the subfolder
  \<^verbatim>\<open>docs\<close>; the metadata of \<^verbatim>\<open>down\<close> cannot be fetched; nothing else exists. The table of
  MIME types knows \<^verbatim>\<open>.json\<close> only.
\<close>

definition ex_meta :: FileMetadata where
  "ex_meta = \<lparr>Rev = ''r1'', ServerModified = 7\<rparr>"

definition ex_remote :: remote where
  "ex_remote =
     \<lparr>GetMetadata = (\<lambda>p. if p = ''/Public/a.json'' \<or> p = ''/Public/README''
                          then Inr (FileMeta ex_meta)
                          else if p = ''/Public/docs'' then Inr FolderMeta
                          else if p = ''/Public/down'' then Inl (OtherError ''timeout'')
                          else Inl (GetMetadataAPIError ''path/not_found/..'')),
      Download = (\<lambda>p. if p = ''/Public/a.json'' \<or> p = ''/Public/README''
                       then Inr (ex_meta, Inr ''{}'')
                       else Inl (OtherError ''path/not_file/..''))\<rparr>"

definition ex_tbe :: "string \<Rightarrow> string" where
  "ex_tbe ext = (if ext = ''.json'' then ''application/json'' else [])"

definition ex_world :: "(FileMetadata, remote) world" where
  "ex_world =
     \<lparr>db = ex_remote, lmod = 10, dbcache = newcache, folder = ''/Public'', time_Now = 12,
      mime_TypeByExtension = ex_tbe, trace = []\<rparr>"

definition ex_obj :: "FileMetadata cacheobj" where
  "ex_obj = \<lparr>data = ''{}'', lastmod = 0, etag = [], lastFetch = 12,
             contentType = ''application/json'', exists = True, entry = Some ex_meta\<rparr>"

definition ex_negative :: "'e cacheobj" where
  "ex_negative = \<lparr>data = [], lastmod = 0, etag = [], lastFetch = 12,
                  contentType = [], exists = False, entry = None\<rparr>"

definition ex_request :: "string \<Rightarrow> request" where
  "ex_request path = \<lparr>URL_Path = path, Method = ''GET'', Header = Map.empty\<rparr>"

text \<open>The same folder as the remote store of lines 1-250 reports it.\<close>

definition ex_entry_v1 :: Entry where
  "ex_entry_v1 = \<lparr>Revision = ''r1'', Modified = 7, MimeType = ''application/octet-stream'',
                  IsDir = False\<rparr>"

definition ex_remote_v1 :: remote_v1 where
  "ex_remote_v1 =
     \<lparr>Metadata = (\<lambda>p. if p = ''/Public/a.json'' then Inr ex_entry_v1
                       else if p = ''/Public/docs''
                       then Inr (ex_entry_v1\<lparr>MimeType := [], IsDir := True\<rparr>)
                       else if p = ''/Public/down'' then Inl (OtherError ''timeout'')
                       else Inl (DropboxError 404 ''not found'')),
      Download_v1 = (\<lambda>p. if p = ''/Public/a.json'' then Inr (Inr ''{}'')
                          else Inl (OtherError ''not a file''))\<rparr>"

definition ex_world_v1 :: "(Entry, remote_v1) world" where
  "ex_world_v1 =
     \<lparr>db = ex_remote_v1, lmod = 10, dbcache = newcache, folder = ''/Public'', time_Now = 12,
      mime_TypeByExtension = ex_tbe, trace = []\<rparr>"

definition ex_obj_v1 :: "Entry cacheobj" where
  "ex_obj_v1 = \<lparr>data = ''{}'', lastmod = 0, etag = [], lastFetch = 12, contentType = [],
                exists = True, entry = Some (ex_entry_v1\<lparr>MimeType := ''application/json''\<rparr>)\<rparr>"

section \<open>Properties\<close>

text \<open>
  The handlers run one at a time here; the locks of the cache, the log lines and the
  compression wrapped around the handler are outside the model.
\<close>

lemmas writer_defs = Header_Set_def WriteHeader_def Write_def http_Error_def
  bodyAllowedForStatus_def newResponse_def Header_Get_def Let_def

lemmas example_defs = ex_world_def ex_remote_def ex_meta_def ex_obj_def ex_request_def
  ex_tbe_def newcache_def ex_world_v1_def ex_remote_v1_def ex_entry_v1_def ex_obj_v1_def
  ex_negative_def

lemmas handler_defs = dbhandler_def dbhandlerMiss_def dbhandlerMiss_download_def
  dbhandlerNotFound_def dbhandlerServe_def dbcache_Get_def dbcache_Set_def Get_def Set_def
  db_GetMetadata_def db_Download_def

lemmas handler_v1_defs = dbhandler_v1_def dbhandlerMiss_v1_def dbhandlerMiss_download_v1_def
  dbhandlerNotFound_v1_def dbhandlerServe_v1_def dbcache_Get_def dbcache_Set_def Get_def
  Set_def db_Metadata_v1_def db_Download_v1_def

subsection \<open>The cache\<close>

text \<open>
  C10. \<^verbatim>\<open>Set\<close> under one key leaves what \<^verbatim>\<open>Get\<close> returns under every other key as it
  was; \<^verbatim>\<open>Get\<close> leaves the cache as it found it, so a second \<^verbatim>\<open>Get\<close> of the same key
  right after the first returns the same result.
\<close>

theorem cache_frame:
  "(k1 \<noteq> k2 \<longrightarrow> fst (Get (snd (Set c k1 e)) k2) = fst (Get c k2))
   \<and> snd (Get c k) = c
   \<and> fst (Get (snd (Get c k)) k) = fst (Get c k)"
  by (simp add: Get_def Set_def split: option.splits)

theorem cache_frame_witness:
  "''/a.json'' \<noteq> ''/b''
   \<and> fst (Get (snd (Set (newcache(''/b'' \<mapsto> ex_obj)) ''/a.json'' ex_negative)) ''/b'') = Inr ex_obj
   \<and> fst (Get (newcache(''/b'' \<mapsto> ex_obj)) ''/b'') = Inr ex_obj"
  using cache_frame [of "''/a.json''" "''/b''" "newcache(''/b'' \<mapsto> ex_obj)" ex_negative "''/b''"]
  by (simp add: Get_def)

text \<open>
  The cache starts without the two reserved paths, and \<^verbatim>\<open>dbhandler\<close> of lines 447-480
  never stores under them: it answers them before it touches the cache.
\<close>

lemma reserved_free_newcache: "reserved_free newcache"
  by (simp add: reserved_free_def newcache_def)

lemma reserved_free_dbhandler:
  "reserved_free (dbcache wd) \<Longrightarrow> reserved_free (dbcache (fst (reached (dbhandler wd w r))))"
  by (auto simp: handler_defs reserved_free_def Let_def
      split: option.splits sum.splits error.splits IsMetadata.splits prod.splits if_splits)

text \<open>What \<^verbatim>\<open>dbhandlerNotFound\<close> stores and answers.\<close>

lemma dbhandlerNotFound_result:
  "dbhandlerNotFound wd w r key
     = Return (wd\<lparr>dbcache := (dbcache wd)(key \<mapsto>
                      \<lparr>data = [], lastmod = 0, etag = [], lastFetch = time_Now wd,
                       contentType = [], exists = False, entry = None\<rparr>),
                  trace := trace wd @ [CacheSet key]\<rparr>,
               http_Error w ''File not found'' 404)"
  by (simp add: dbhandlerNotFound_def dbhandlerServe_def dbcache_Set_def Set_def)

lemma dbhandlerNotFound_v1_result:
  "dbhandlerNotFound_v1 wd w r key
     = Return (wd\<lparr>dbcache := (dbcache wd)(key \<mapsto>
                      \<lparr>data = [], lastmod = 0, etag = [], lastFetch = time_Now wd,
                       contentType = [], exists = False, entry = None\<rparr>),
                  trace := trace wd @ [CacheSet key]\<rparr>,
               http_Error w ''File not found'' 404)"
  by (simp add: dbhandlerNotFound_v1_def dbhandlerServe_v1_def dbcache_Set_def Set_def)

text \<open>
  C8. A cache in which every object with \<^verbatim>\<open>exists = false\<close> has no bytes, no content
  type, no entity tag and no entry (so no revision) is still such a cache after the handler
  has run, whatever the request and whatever the remote store answers, and whether the
  handler returns or panics; the empty cache is such a cache. So every negative object
  that a handler ever stores carries nothing.
\<close>

theorem negative_entries_carry_nothing:
  "negatives_carry_nothing (newcache :: FileMetadata cache)
   \<and> negatives_carry_nothing (newcache :: Entry cache)
   \<and> (negatives_carry_nothing (dbcache wd)
        \<longrightarrow> negatives_carry_nothing (dbcache (fst (reached (dbhandler wd w r)))))
   \<and> (negatives_carry_nothing (dbcache wd')
        \<longrightarrow> negatives_carry_nothing (dbcache (fst (reached (dbhandler_v1 wd' w r)))))"
proof (intro conjI impI)
  show "negatives_carry_nothing (newcache :: FileMetadata cache)"
    by (simp add: negatives_carry_nothing_def newcache_def)
  show "negatives_carry_nothing (newcache :: Entry cache)"
    by (simp add: negatives_carry_nothing_def newcache_def)
next
  assume "negatives_carry_nothing (dbcache wd)"
  then show "negatives_carry_nothing (dbcache (fst (reached (dbhandler wd w r))))"
    by (auto simp: handler_defs negatives_carry_nothing_def carries_nothing_def Let_def
        split: option.splits sum.splits error.splits IsMetadata.splits prod.splits if_splits)
next
  assume "negatives_carry_nothing (dbcache wd')"
  then show "negatives_carry_nothing (dbcache (fst (reached (dbhandler_v1 wd' w r))))"
    by (auto simp: handler_v1_defs negatives_carry_nothing_def carries_nothing_def Let_def
        split: option.splits sum.splits error.splits prod.splits if_splits)
qed

theorem negative_entries_carry_nothing_witness:
  "negatives_carry_nothing (newcache(''/gone'' \<mapsto> ex_negative :: FileMetadata cacheobj))
   \<and> negatives_carry_nothing
        (dbcache (fst (reached (dbhandler (ex_world\<lparr>dbcache := newcache(''/gone'' \<mapsto> ex_negative)\<rparr>)
                                  newResponse (ex_request ''/nothing'')))))
   \<and> negatives_carry_nothing (newcache(''/gone'' \<mapsto> ex_negative :: Entry cacheobj))
   \<and> negatives_carry_nothing
        (dbcache (fst (reached (dbhandler_v1 (ex_world_v1\<lparr>dbcache := newcache(''/gone'' \<mapsto> ex_negative)\<rparr>)
                                  newResponse (ex_request ''/nothing'')))))"
proof -
  have a: "negatives_carry_nothing (newcache(''/gone'' \<mapsto> ex_negative :: FileMetadata cacheobj))"
    by (simp add: negatives_carry_nothing_def carries_nothing_def newcache_def ex_negative_def)
  have b: "negatives_carry_nothing (newcache(''/gone'' \<mapsto> ex_negative :: Entry cacheobj))"
    by (simp add: negatives_carry_nothing_def carries_nothing_def newcache_def ex_negative_def)
  from a b
    negative_entries_carry_nothing
      [where wd = "ex_world\<lparr>dbcache := newcache(''/gone'' \<mapsto> ex_negative)\<rparr>"
         and wd' = "ex_world_v1\<lparr>dbcache := newcache(''/gone'' \<mapsto> ex_negative)\<rparr>"
         and w = newResponse and r = "ex_request ''/nothing''"]
  show ?thesis by simp
qed

subsection \<open>Serving an object\<close>

text \<open>
  C7, as the code has it. Serving an object with \<^verbatim>\<open>exists = false\<close> is the call
  \<^verbatim>\<open>http.Error(w, "File not found", 404)\<close> and nothing more, in both revisions: on a fresh
  writer the status is 404, the content type is plain text, and the body is the line
  \<^verbatim>\<open>File not found\<close> with its newline. Nothing of the object is written.
\<close>

theorem negative_entry_served:
  "(\<not> exists obj
      \<longrightarrow> dbhandlerServe w r obj = Return (http_Error w ''File not found'' 404))
   \<and> (\<not> exists obj'
      \<longrightarrow> dbhandlerServe_v1 w r obj' = Return (http_Error w ''File not found'' 404))
   \<and> http_Error newResponse ''File not found'' 404
        = \<lparr>header = [''Content-Type'' \<mapsto> HText ''text/plain; charset=utf-8'',
                     ''X-Content-Type-Options'' \<mapsto> HText ''nosniff''],
           status = Some 404, body = ''File not found'' @ [LF]\<rparr>"
  by (simp add: dbhandlerServe_def dbhandlerServe_v1_def writer_defs)

theorem negative_entry_served_witness:
  "\<not> exists (ex_negative :: FileMetadata cacheobj)
   \<and> \<not> exists (ex_negative :: Entry cacheobj)
   \<and> dbhandlerServe newResponse (ex_request ''/nothing'') ex_negative
       = Return \<lparr>header = [''Content-Type'' \<mapsto> HText ''text/plain; charset=utf-8'',
                           ''X-Content-Type-Options'' \<mapsto> HText ''nosniff''],
                 status = Some 404, body = ''File not found'' @ [LF]\<rparr>
   \<and> dbhandlerServe_v1 newResponse (ex_request ''/nothing'') ex_negative
       = Return \<lparr>header = [''Content-Type'' \<mapsto> HText ''text/plain; charset=utf-8'',
                           ''X-Content-Type-Options'' \<mapsto> HText ''nosniff''],
                 status = Some 404, body = ''File not found'' @ [LF]\<rparr>"
  using negative_entry_served
    [where obj = ex_negative and obj' = ex_negative and w = newResponse
       and r = "ex_request ''/nothing''"]
  by (simp add: ex_negative_def)

text \<open>
  C7, as the claim has it, fails: the not-found response has a body. Serving the negative
  object on a fresh writer writes fifteen bytes.
\<close>

theorem negative_entry_body_counterexample:
  "body (reached (dbhandlerServe newResponse (ex_request ''/nothing'') ex_negative)) \<noteq> []
   \<and> body (reached (dbhandlerServe newResponse (ex_request ''/nothing'') ex_negative))
       = ''File not found'' @ [LF]
   \<and> body (reached (dbhandlerServe_v1 newResponse (ex_request ''/nothing'') ex_negative))
       = ''File not found'' @ [LF]"
  by (simp add: dbhandlerServe_def dbhandlerServe_v1_def writer_defs ex_negative_def)

text \<open>
  C6, as the code has it. Serving a positive object (lines 428-445) on a fresh writer:
  when the value of the request's \<^verbatim>\<open>If-None-Match\<close> header equals the revision of the
  object, the status is 304 and the body stays empty; when the value differs, the status
  is 200 and the body is the cached bytes. \<^verbatim>\<open>Header.Get\<close> reads an absent header as the
  empty string. So a request without the header gets the full body when the revision of the
  object is not empty, and 304 with an empty body when the revision is empty.
\<close>

theorem conditional_request:
  "exists obj \<and> entry obj = Some e \<and> status w = None \<and> body w = []
   \<longrightarrow> (Header_Get (Header r) ''If-None-Match'' = Rev e
          \<longrightarrow> (\<exists>w'. dbhandlerServe w r obj = Return w' \<and> status w' = Some 304 \<and> body w' = []))
     \<and> (Header_Get (Header r) ''If-None-Match'' \<noteq> Rev e
          \<longrightarrow> (\<exists>w'. dbhandlerServe w r obj = Return w' \<and> status w' = Some 200
                     \<and> body w' = data obj))
     \<and> (Header r ''If-None-Match'' = None \<and> Rev e \<noteq> []
          \<longrightarrow> (\<exists>w'. dbhandlerServe w r obj = Return w' \<and> status w' = Some 200
                     \<and> body w' = data obj))
     \<and> (Header r ''If-None-Match'' = None \<and> Rev e = []
          \<longrightarrow> (\<exists>w'. dbhandlerServe w r obj = Return w' \<and> status w' = Some 304 \<and> body w' = []))"
  by (auto simp: dbhandlerServe_def writer_defs)

theorem conditional_request_witness:
  "exists ex_obj \<and> entry ex_obj = Some ex_meta \<and> Rev ex_meta = ''r1''
   \<and> status (reached (dbhandlerServe newResponse
                 ((ex_request ''/a.json'')\<lparr>Header := [''If-None-Match'' \<mapsto> ''r1'']\<rparr>) ex_obj))
       = Some 304
   \<and> body (reached (dbhandlerServe newResponse
                 ((ex_request ''/a.json'')\<lparr>Header := [''If-None-Match'' \<mapsto> ''r1'']\<rparr>) ex_obj))
       = []
   \<and> status (reached (dbhandlerServe newResponse
                 ((ex_request ''/a.json'')\<lparr>Header := [''If-None-Match'' \<mapsto> ''r0'']\<rparr>) ex_obj))
       = Some 200
   \<and> body (reached (dbhandlerServe newResponse
                 ((ex_request ''/a.json'')\<lparr>Header := [''If-None-Match'' \<mapsto> ''r0'']\<rparr>) ex_obj))
       = ''{}''
   \<and> Header (ex_request ''/a.json'') ''If-None-Match'' = None
   \<and> status (reached (dbhandlerServe newResponse (ex_request ''/a.json'') ex_obj)) = Some 200
   \<and> body (reached (dbhandlerServe newResponse (ex_request ''/a.json'') ex_obj)) = ''{}''
   \<and> exists (ex_obj\<lparr>entry := Some (ex_meta\<lparr>Rev := []\<rparr>)\<rparr>)
   \<and> Rev (ex_meta\<lparr>Rev := []\<rparr>) = []
   \<and> status (reached (dbhandlerServe newResponse (ex_request ''/a.json'')
                        (ex_obj\<lparr>entry := Some (ex_meta\<lparr>Rev := []\<rparr>)\<rparr>)))
       = Some 304"
proof -
  have h: "exists ex_obj \<and> entry ex_obj = Some ex_meta \<and> status newResponse = None
           \<and> body newResponse = []"
    by (simp add: ex_obj_def newResponse_def)
  have h0: "exists (ex_obj\<lparr>entry := Some (ex_meta\<lparr>Rev := []\<rparr>)\<rparr>)
            \<and> entry (ex_obj\<lparr>entry := Some (ex_meta\<lparr>Rev := []\<rparr>)\<rparr>) = Some (ex_meta\<lparr>Rev := []\<rparr>)
            \<and> status newResponse = None \<and> body newResponse = []"
    by (simp add: ex_obj_def newResponse_def)
  have m: "Rev ex_meta = ''r1''" "data ex_obj = ''{}''" "Rev (ex_meta\<lparr>Rev := []\<rparr>) = []"
    by (simp_all add: ex_meta_def ex_obj_def)
  have n: "Header (ex_request ''/a.json'') ''If-None-Match'' = None"
    by (simp add: ex_request_def)
  from h m
    conditional_request
      [where obj = ex_obj and e = ex_meta and w = newResponse
         and r = "(ex_request ''/a.json'')\<lparr>Header := [''If-None-Match'' \<mapsto> ''r1'']\<rparr>"]
  have a: "status (reached (dbhandlerServe newResponse
                 ((ex_request ''/a.json'')\<lparr>Header := [''If-None-Match'' \<mapsto> ''r1'']\<rparr>) ex_obj))
             = Some 304
           \<and> body (reached (dbhandlerServe newResponse
                 ((ex_request ''/a.json'')\<lparr>Header := [''If-None-Match'' \<mapsto> ''r1'']\<rparr>) ex_obj))
             = []"
    by (auto simp: Header_Get_def ex_request_def)
  from h m
    conditional_request
      [where obj = ex_obj and e = ex_meta and w = newResponse
         and r = "(ex_request ''/a.json'')\<lparr>Header := [''If-None-Match'' \<mapsto> ''r0'']\<rparr>"]
  have b: "status (reached (dbhandlerServe newResponse
                 ((ex_request ''/a.json'')\<lparr>Header := [''If-None-Match'' \<mapsto> ''r0'']\<rparr>) ex_obj))
             = Some 200
           \<and> body (reached (dbhandlerServe newResponse
                 ((ex_request ''/a.json'')\<lparr>Header := [''If-None-Match'' \<mapsto> ''r0'']\<rparr>) ex_obj))
             = ''{}''"
    by (auto simp: Header_Get_def ex_request_def)
  from h m n
    conditional_request
      [where obj = ex_obj and e = ex_meta and w = newResponse and r = "ex_request ''/a.json''"]
  have c: "status (reached (dbhandlerServe newResponse (ex_request ''/a.json'') ex_obj)) = Some 200
           \<and> body (reached (dbhandlerServe newResponse (ex_request ''/a.json'') ex_obj)) = ''{}''"
    by auto
  from h0 m n
    conditional_request
      [where obj = "ex_obj\<lparr>entry := Some (ex_meta\<lparr>Rev := []\<rparr>)\<rparr>" and e = "ex_meta\<lparr>Rev := []\<rparr>"
         and w = newResponse and r = "ex_request ''/a.json''"]
  have d: "status (reached (dbhandlerServe newResponse (ex_request ''/a.json'')
                             (ex_obj\<lparr>entry := Some (ex_meta\<lparr>Rev := []\<rparr>)\<rparr>)))
             = Some 304"
    by auto
  from a b c d h h0 m n show ?thesis by simp
qed

text \<open>
  C6, as the claim has it, fails for an absent header: a positive object whose revision is
  the empty string, asked for without \<^verbatim>\<open>If-None-Match\<close>, is answered with 304 and an
  empty body, not with 200 and its two bytes.
\<close>

theorem conditional_request_counterexample:
  "Header (ex_request ''/a.json'') ''If-None-Match'' = None
   \<and> exists (ex_obj\<lparr>entry := Some (ex_meta\<lparr>Rev := []\<rparr>)\<rparr>)
   \<and> data (ex_obj\<lparr>entry := Some (ex_meta\<lparr>Rev := []\<rparr>)\<rparr>) = ''{}''
   \<and> status (reached (dbhandlerServe newResponse (ex_request ''/a.json'')
                        (ex_obj\<lparr>entry := Some (ex_meta\<lparr>Rev := []\<rparr>)\<rparr>)))
       = Some 304
   \<and> body (reached (dbhandlerServe newResponse (ex_request ''/a.json'')
                      (ex_obj\<lparr>entry := Some (ex_meta\<lparr>Rev := []\<rparr>)\<rparr>)))
       = []"
  by (simp add: dbhandlerServe_def writer_defs ex_obj_def ex_meta_def ex_request_def)

text \<open>
  What the older \<^verbatim>\<open>dbhandlerServe\<close> (lines 175-187) writes for a positive object on a fresh
  writer: the three headers from the entry, status 200 and the cached bytes, whatever the
  request.
\<close>

lemma positive_entry_served_v1:
  "exists obj \<Longrightarrow> entry obj = Some e \<Longrightarrow> status w = None \<Longrightarrow>
   dbhandlerServe_v1 w r obj
     = Return (w\<lparr>header := (header w)(''Content-Type'' \<mapsto> HText (MimeType e),
                                         ''Etag'' \<mapsto> HText (Revision e),
                                         ''Last-Modified'' \<mapsto> HDate (Modified e)),
                  status := Some 200, body := body w @ data obj\<rparr>)"
  by (simp add: dbhandlerServe_v1_def writer_defs)

subsection \<open>The reserved paths\<close>

text \<open>
  C9. \<^verbatim>\<open>dbhandler\<close> of lines 447-459 answers \<^verbatim>\<open>/robots.txt\<close> with the fixed body that
  disallows everything, and \<^verbatim>\<open>/\<close> with a redirect (302) to the repository. In both cases
  the state it returns is the state it was given, whatever that is: the trace gains no
  event, so the cache is neither read nor written and the remote store is not called.
\<close>

theorem reserved_paths:
  "(URL_Path r = ''/robots.txt''
      \<longrightarrow> dbhandler wd w r = Return (wd, Write w robots_txt)
          \<and> Write newResponse robots_txt
              = \<lparr>header = Map.empty, status = Some 200,
                 body = ''User-agent: *'' @ [LF] @ ''Disallow: /'' @ [LF]\<rparr>)
   \<and> (URL_Path r = ''/''
      \<longrightarrow> dbhandler wd w r
            = Return (wd, Redirect w r ''https://github.com/sajal/dboxserver'' 302)
          \<and> status (Redirect newResponse r ''https://github.com/sajal/dboxserver'' 302)
              = Some 302
          \<and> header (Redirect newResponse r ''https://github.com/sajal/dboxserver'' 302)
               ''Location''
              = Some (HText ''https://github.com/sajal/dboxserver''))"
  by (simp add: dbhandler_def robots_txt_def Redirect_def writer_defs)

theorem reserved_paths_witness:
  "URL_Path (ex_request ''/robots.txt'') = ''/robots.txt''
   \<and> dbhandler (ex_world\<lparr>dbcache := newcache(''/robots.txt'' \<mapsto> ex_obj)\<rparr>) newResponse
        (ex_request ''/robots.txt'')
       = Return (ex_world\<lparr>dbcache := newcache(''/robots.txt'' \<mapsto> ex_obj)\<rparr>,
                 \<lparr>header = Map.empty, status = Some 200,
                  body = ''User-agent: *'' @ [LF] @ ''Disallow: /'' @ [LF]\<rparr>)
   \<and> URL_Path (ex_request ''/'') = ''/''
   \<and> fst (reached (dbhandler (ex_world\<lparr>dbcache := newcache(''/'' \<mapsto> ex_obj)\<rparr>) newResponse
                     (ex_request ''/'')))
       = ex_world\<lparr>dbcache := newcache(''/'' \<mapsto> ex_obj)\<rparr>
   \<and> status (snd (reached (dbhandler (ex_world\<lparr>dbcache := newcache(''/'' \<mapsto> ex_obj)\<rparr>)
                             newResponse (ex_request ''/''))))
       = Some 302"
  using
    reserved_paths
      [where r = "ex_request ''/robots.txt''" and w = newResponse
         and wd = "ex_world\<lparr>dbcache := newcache(''/robots.txt'' \<mapsto> ex_obj)\<rparr>"]
    reserved_paths
      [where r = "ex_request ''/''" and w = newResponse
         and wd = "ex_world\<lparr>dbcache := newcache(''/'' \<mapsto> ex_obj)\<rparr>"]
  by (simp add: ex_request_def)

subsection \<open>A fresh object is served from the cache\<close>

text \<open>
  C2. When the cache holds an object under the request path whose \<^verbatim>\<open>lastFetch\<close> is not
  before \<^verbatim>\<open>lmod\<close>, equal times included, the handler serves that very object and returns
  the state it was given with one more event, the read of the cache: the cache is as it
  was, and the remote store is asked for neither metadata nor bytes. For lines 447-480
  the cache is one that holds nothing under the two reserved paths, as every cache the
  handler fills is (\<open>reserved_free_newcache\<close>, \<open>reserved_free_dbhandler\<close>); lines 189-211
  have no reserved paths.
\<close>

theorem fresh_entry_served:
  "(dbcache wd (URL_Path r) = Some obj \<and> \<not> lastFetch obj < lmod wd
      \<and> reserved_free (dbcache wd)
      \<longrightarrow> dbhandler wd w r
            = map_exit (Pair (wd\<lparr>trace := trace wd @ [CacheGet (URL_Path r)]\<rparr>))
                (dbhandlerServe w r obj))
   \<and> (dbcache wd' (URL_Path r) = Some obj' \<and> \<not> lastFetch obj' < lmod wd'
      \<longrightarrow> dbhandler_v1 wd' w r
            = map_exit (Pair (wd'\<lparr>trace := trace wd' @ [CacheGet (URL_Path r)]\<rparr>))
                (dbhandlerServe_v1 w r obj'))"
  by (auto simp: dbhandler_def dbhandler_v1_def reserved_free_def dbcache_Get_def Get_def Let_def)

theorem fresh_entry_served_witness:
  "lastFetch ex_obj = lmod (ex_world\<lparr>lmod := 12, dbcache := newcache(''/a.json'' \<mapsto> ex_obj)\<rparr>)
   \<and> reserved_free (newcache(''/a.json'' \<mapsto> ex_obj))
   \<and> dbhandler (ex_world\<lparr>lmod := 12, dbcache := newcache(''/a.json'' \<mapsto> ex_obj)\<rparr>)
        newResponse (ex_request ''/a.json'')
      = map_exit (Pair (ex_world\<lparr>lmod := 12, dbcache := newcache(''/a.json'' \<mapsto> ex_obj),
                                 trace := [CacheGet ''/a.json'']\<rparr>))
          (dbhandlerServe newResponse (ex_request ''/a.json'') ex_obj)
   \<and> lastFetch ex_obj_v1
       = lmod (ex_world_v1\<lparr>lmod := 12, dbcache := newcache(''/a.json'' \<mapsto> ex_obj_v1)\<rparr>)
   \<and> dbhandler_v1 (ex_world_v1\<lparr>lmod := 12, dbcache := newcache(''/a.json'' \<mapsto> ex_obj_v1)\<rparr>)
        newResponse (ex_request ''/a.json'')
      = map_exit (Pair (ex_world_v1\<lparr>lmod := 12, dbcache := newcache(''/a.json'' \<mapsto> ex_obj_v1),
                                    trace := [CacheGet ''/a.json'']\<rparr>))
          (dbhandlerServe_v1 newResponse (ex_request ''/a.json'') ex_obj_v1)"
  using fresh_entry_served
    [where wd = "ex_world\<lparr>lmod := 12, dbcache := newcache(''/a.json'' \<mapsto> ex_obj)\<rparr>"
       and r = "ex_request ''/a.json''" and obj = ex_obj and w = newResponse
       and wd' = "ex_world_v1\<lparr>lmod := 12, dbcache := newcache(''/a.json'' \<mapsto> ex_obj_v1)\<rparr>"
       and obj' = ex_obj_v1]
  by (simp add: ex_world_def ex_world_v1_def ex_request_def ex_obj_def ex_obj_v1_def
      reserved_free_def newcache_def)

subsection \<open>An unchanged revision is reused\<close>

text \<open>
  C3. When the object cached under the request path is stale (its \<^verbatim>\<open>lastFetch\<close> is
  before \<^verbatim>\<open>lmod\<close>) and positive, and the metadata the remote store now returns is a file
  of the same revision, the handler builds the new object from the new metadata, the
  current time, and the bytes and the content type of the old object, stores it under the
  path and serves it. The events are the read of the cache, the metadata call and the
  write of the cache: nothing is downloaded. In lines 385-395 the content type is the field
  \<^verbatim>\<open>contentType\<close>; in lines 132-141 it is the \<^verbatim>\<open>MimeType\<close> of the entry.
\<close>

theorem unchanged_revision_reused:
  "(dbcache wd (URL_Path r) = Some old \<and> lastFetch old < lmod wd \<and> reserved_free (dbcache wd)
      \<and> exists old \<and> entry old = Some oe
      \<and> GetMetadata (db wd) (folder wd @ URL_Path r) = Inr (FileMeta e) \<and> Rev oe = Rev e
      \<longrightarrow> (let obj = \<lparr>data = data old, lastmod = 0, etag = [], lastFetch = time_Now wd,
                         contentType = contentType old, exists = True, entry = Some e\<rparr>
           in dbhandler wd w r
              = map_exit
                  (Pair (wd\<lparr>dbcache := (dbcache wd)(URL_Path r \<mapsto> obj),
                             trace := trace wd @ [CacheGet (URL_Path r),
                                                  RemoteMetadata (folder wd @ URL_Path r),
                                                  CacheSet (URL_Path r)]\<rparr>))
                  (dbhandlerServe w r obj)))
   \<and> (dbcache wd' (URL_Path r) = Some old' \<and> lastFetch old' < lmod wd'
      \<and> exists old' \<and> entry old' = Some oe'
      \<and> Metadata (db wd') (folder wd' @ URL_Path r) = Inr e' \<and> \<not> IsDir e'
      \<and> Revision oe' = Revision e'
      \<longrightarrow> (let obj = \<lparr>data = data old', lastmod = 0, etag = [], lastFetch = time_Now wd',
                         contentType = [], exists = True,
                         entry = Some (e'\<lparr>MimeType := MimeType oe'\<rparr>)\<rparr>
           in dbhandler_v1 wd' w r
              = map_exit
                  (Pair (wd'\<lparr>dbcache := (dbcache wd')(URL_Path r \<mapsto> obj),
                              trace := trace wd' @ [CacheGet (URL_Path r),
                                                    RemoteMetadata (folder wd' @ URL_Path r),
                                                    CacheSet (URL_Path r)]\<rparr>))
                  (dbhandlerServe_v1 w r obj)))"
  by (auto simp: dbhandler_def dbhandler_v1_def reserved_free_def dbcache_Get_def Get_def Let_def
      dbhandlerMiss_def dbhandlerMiss_v1_def db_GetMetadata_def db_Metadata_v1_def
      dbcache_Set_def Set_def)

theorem unchanged_revision_reused_witness:
  "lastFetch ex_obj < lmod (ex_world\<lparr>lmod := 20, dbcache := newcache(''/a.json'' \<mapsto> ex_obj)\<rparr>)
   \<and> exists ex_obj \<and> entry ex_obj = Some ex_meta
   \<and> GetMetadata ex_remote ''/Public/a.json'' = Inr (FileMeta ex_meta)
   \<and> trace (fst (reached
        (dbhandler (ex_world\<lparr>lmod := 20, dbcache := newcache(''/a.json'' \<mapsto> ex_obj)\<rparr>)
           newResponse (ex_request ''/a.json''))))
       = [CacheGet ''/a.json'', RemoteMetadata ''/Public/a.json'', CacheSet ''/a.json'']
   \<and> body (snd (reached
        (dbhandler (ex_world\<lparr>lmod := 20, dbcache := newcache(''/a.json'' \<mapsto> ex_obj)\<rparr>)
           newResponse (ex_request ''/a.json''))))
       = ''{}''
   \<and> lastFetch ex_obj_v1
       < lmod (ex_world_v1\<lparr>lmod := 20, dbcache := newcache(''/a.json'' \<mapsto> ex_obj_v1)\<rparr>)
   \<and> Metadata ex_remote_v1 ''/Public/a.json'' = Inr ex_entry_v1 \<and> \<not> IsDir ex_entry_v1
   \<and> trace (fst (reached
        (dbhandler_v1 (ex_world_v1\<lparr>lmod := 20, dbcache := newcache(''/a.json'' \<mapsto> ex_obj_v1)\<rparr>)
           newResponse (ex_request ''/a.json''))))
       = [CacheGet ''/a.json'', RemoteMetadata ''/Public/a.json'', CacheSet ''/a.json'']
   \<and> header (snd (reached
        (dbhandler_v1 (ex_world_v1\<lparr>lmod := 20, dbcache := newcache(''/a.json'' \<mapsto> ex_obj_v1)\<rparr>)
           newResponse (ex_request ''/a.json'')))) ''Content-Type''
       = Some (HText ''application/json'')"
proof -
  have h: "dbcache (ex_world\<lparr>lmod := 20, dbcache := newcache(''/a.json'' \<mapsto> ex_obj)\<rparr>)
             (URL_Path (ex_request ''/a.json'')) = Some ex_obj
           \<and> lastFetch ex_obj < lmod (ex_world\<lparr>lmod := 20, dbcache := newcache(''/a.json'' \<mapsto> ex_obj)\<rparr>)
           \<and> reserved_free (dbcache (ex_world\<lparr>lmod := 20, dbcache := newcache(''/a.json'' \<mapsto> ex_obj)\<rparr>))
           \<and> exists ex_obj \<and> entry ex_obj = Some ex_meta
           \<and> GetMetadata (db (ex_world\<lparr>lmod := 20, dbcache := newcache(''/a.json'' \<mapsto> ex_obj)\<rparr>))
                (folder (ex_world\<lparr>lmod := 20, dbcache := newcache(''/a.json'' \<mapsto> ex_obj)\<rparr>)
                   @ URL_Path (ex_request ''/a.json'')) = Inr (FileMeta ex_meta)
           \<and> Rev ex_meta = Rev ex_meta"
    by (simp add: example_defs reserved_free_def)
  have h': "dbcache (ex_world_v1\<lparr>lmod := 20, dbcache := newcache(''/a.json'' \<mapsto> ex_obj_v1)\<rparr>)
             (URL_Path (ex_request ''/a.json'')) = Some ex_obj_v1
           \<and> lastFetch ex_obj_v1
               < lmod (ex_world_v1\<lparr>lmod := 20, dbcache := newcache(''/a.json'' \<mapsto> ex_obj_v1)\<rparr>)
           \<and> exists ex_obj_v1
           \<and> entry ex_obj_v1 = Some (ex_entry_v1\<lparr>MimeType := ''application/json''\<rparr>)
           \<and> Metadata (db (ex_world_v1\<lparr>lmod := 20, dbcache := newcache(''/a.json'' \<mapsto> ex_obj_v1)\<rparr>))
                (folder (ex_world_v1\<lparr>lmod := 20, dbcache := newcache(''/a.json'' \<mapsto> ex_obj_v1)\<rparr>)
                   @ URL_Path (ex_request ''/a.json'')) = Inr ex_entry_v1
           \<and> \<not> IsDir ex_entry_v1
           \<and> Revision (ex_entry_v1\<lparr>MimeType := ''application/json''\<rparr>) = Revision ex_entry_v1"
    by (simp add: example_defs)
  note t = unchanged_revision_reused
    [where wd = "ex_world\<lparr>lmod := 20, dbcache := newcache(''/a.json'' \<mapsto> ex_obj)\<rparr>"
       and r = "ex_request ''/a.json''" and old = ex_obj and oe = ex_meta and e = ex_meta
       and w = newResponse
       and wd' = "ex_world_v1\<lparr>lmod := 20, dbcache := newcache(''/a.json'' \<mapsto> ex_obj_v1)\<rparr>"
       and old' = ex_obj_v1 and oe' = "ex_entry_v1\<lparr>MimeType := ''application/json''\<rparr>"
       and e' = ex_entry_v1]
  from t h have a:
    "dbhandler (ex_world\<lparr>lmod := 20, dbcache := newcache(''/a.json'' \<mapsto> ex_obj)\<rparr>)
       newResponse (ex_request ''/a.json'')
     = map_exit
         (Pair (ex_world\<lparr>lmod := 20, dbcache := newcache(''/a.json'' \<mapsto> ex_obj),
                  dbcache := (newcache(''/a.json'' \<mapsto> ex_obj))(''/a.json'' \<mapsto>
                     \<lparr>data = ''{}'', lastmod = 0, etag = [], lastFetch = 12,
                      contentType = ''application/json'', exists = True, entry = Some ex_meta\<rparr>),
                  trace := [CacheGet ''/a.json'', RemoteMetadata ''/Public/a.json'',
                            CacheSet ''/a.json'']\<rparr>))
         (dbhandlerServe newResponse (ex_request ''/a.json'')
            \<lparr>data = ''{}'', lastmod = 0, etag = [], lastFetch = 12,
             contentType = ''application/json'', exists = True, entry = Some ex_meta\<rparr>)"
    by (simp add: ex_world_def ex_request_def ex_obj_def Let_def)
  from t h' have b:
    "dbhandler_v1 (ex_world_v1\<lparr>lmod := 20, dbcache := newcache(''/a.json'' \<mapsto> ex_obj_v1)\<rparr>)
       newResponse (ex_request ''/a.json'')
     = map_exit
         (Pair (ex_world_v1\<lparr>lmod := 20, dbcache := newcache(''/a.json'' \<mapsto> ex_obj_v1),
                  dbcache := (newcache(''/a.json'' \<mapsto> ex_obj_v1))(''/a.json'' \<mapsto>
                     \<lparr>data = ''{}'', lastmod = 0, etag = [], lastFetch = 12,
                      contentType = [], exists = True,
                      entry = Some (ex_entry_v1\<lparr>MimeType := ''application/json''\<rparr>)\<rparr>),
                  trace := [CacheGet ''/a.json'', RemoteMetadata ''/Public/a.json'',
                            CacheSet ''/a.json'']\<rparr>))
         (dbhandlerServe_v1 newResponse (ex_request ''/a.json'')
            \<lparr>data = ''{}'', lastmod = 0, etag = [], lastFetch = 12,
             contentType = [], exists = True,
             entry = Some (ex_entry_v1\<lparr>MimeType := ''application/json''\<rparr>)\<rparr>)"
    by (simp add: ex_world_v1_def ex_request_def ex_obj_v1_def Let_def)
  show ?thesis
    unfolding a b
    by (simp add: example_defs dbhandlerServe_def dbhandlerServe_v1_def writer_defs)
qed

text \<open>
  The same across an invalidation: a first request downloads the file; the watch loop then
  sets \<^verbatim>\<open>lmod\<close>; the next request serves the same bytes and type, and the number of
  downloads is still one.
\<close>

lemma reuse_across_invalidation:
  "(let wd1 = fst (reached (dbhandler ex_world newResponse (ex_request ''/a.json'')));
        wd2 = longpoll_invalidate (wd1\<lparr>time_Now := 20\<rparr>);
        res = reached (dbhandler (wd2\<lparr>time_Now := 21\<rparr>) newResponse (ex_request ''/a.json''))
    in count_downloads (trace wd1) = 1 \<and> count_downloads (trace (fst res)) = 1
       \<and> body (snd res) = ''{}''
       \<and> header (snd res) ''Content-Type'' = Some (HText ''application/json''))"
  by (simp add: handler_defs example_defs writer_defs ext_type_def longpoll_invalidate_def
      count_downloads_def)

subsection \<open>The content type of a downloaded file\<close>

text \<open>
  What the block of lines 161-168 and 415-422 computes: a key without a dot keeps the type
  it has; otherwise the table is asked for the dot and what follows the last dot of the
  key, and the type is kept when the table returns the empty string.
\<close>

lemma strings_Split_nonempty: "strings_Split s sep \<noteq> []"
  by (induction s) (auto split: list.splits)

lemma strings_Split_no_sep: "sep \<notin> set s \<Longrightarrow> strings_Split s sep = [s]"
  by (induction s) auto

lemma strings_Split_last:
  "sep \<notin> set x \<Longrightarrow>
   last (strings_Split (p @ sep # x) sep) = x \<and> 1 < length (strings_Split (p @ sep # x) sep)"
proof (induction p)
  case Nil
  then show ?case by (simp add: strings_Split_no_sep)
next
  case (Cons c p)
  then show ?case
    by (cases "strings_Split (p @ sep # x) sep") (auto simp: strings_Split_nonempty)
qed

lemma ext_type_no_dot: "CHR ''.'' \<notin> set key \<Longrightarrow> ext_type tbe key dflt = dflt"
  by (simp add: ext_type_def strings_Split_no_sep)

lemma ext_type_last_dot:
  "CHR ''.'' \<notin> set x \<Longrightarrow>
   ext_type tbe (p @ ''.'' @ x) dflt = (if tbe (''.'' @ x) \<noteq> [] then tbe (''.'' @ x) else dflt)"
  using strings_Split_last [of "CHR ''.''" x p]
  by (simp add: ext_type_def Let_def)

text \<open>
  C1, as the code has it. A file that is downloaded is a file whose metadata call
  succeeds, whose old object is not reused, and whose download and read succeed.

  In lines 106-172 the remote store reports a MIME type with the metadata. When that type
  is \<^verbatim>\<open>application/octet-stream\<close>, the type stored and served is the type the table gives
  for the extension after the last dot of the path, and stays \<^verbatim>\<open>application/octet-stream\<close>
  when the path has no dot or the table does not know the extension; any other reported
  type is stored and served as it is.

  In lines 360-425 the remote store reports no MIME type: \<^verbatim>\<open>files.FileMetadata\<close> has none.
  The type stored and served is always the type the table gives for the extension, and
  \<^verbatim>\<open>application/octet-stream\<close> when the path has no dot or the table does not know the
  extension.
\<close>

theorem content_type_correction:
  "(Metadata (db wd') (folder wd' @ key) = Inr e' \<and> \<not> IsDir e' \<and> \<not> reuses_v1 oldobj' e'
      \<and> Download_v1 (db wd') (folder wd' @ key) = Inr (Inr bs) \<and> status w = None
      \<longrightarrow> (let ct = (if MimeType e' = ''application/octet-stream''
                      then ext_type (mime_TypeByExtension wd') key ''application/octet-stream''
                      else MimeType e')
           in \<exists>wd2 w2. dbhandlerMiss_v1 wd' w r key oldobj' = Return (wd2, w2)
                \<and> header w2 ''Content-Type'' = Some (HText ct)
                \<and> (\<exists>obj. dbcache wd2 key = Some obj \<and> entry obj = Some (e'\<lparr>MimeType := ct\<rparr>))))
   \<and> (GetMetadata (db wd) (folder wd @ key) = Inr (FileMeta e) \<and> \<not> reuses oldobj e
      \<and> Download (db wd) (folder wd @ key) = Inr (e2, Inr bs) \<and> status w = None
      \<longrightarrow> (let ct = ext_type (mime_TypeByExtension wd) key ''application/octet-stream''
           in \<exists>wd2 w2. dbhandlerMiss wd w r key oldobj = Return (wd2, w2)
                \<and> header w2 ''Content-Type'' = Some (HText ct)
                \<and> (\<exists>obj. dbcache wd2 key = Some obj \<and> contentType obj = ct)))"
proof (rule conjI)
  show "Metadata (db wd') (folder wd' @ key) = Inr e' \<and> \<not> IsDir e' \<and> \<not> reuses_v1 oldobj' e'
      \<and> Download_v1 (db wd') (folder wd' @ key) = Inr (Inr bs) \<and> status w = None
      \<longrightarrow> (let ct = (if MimeType e' = ''application/octet-stream''
                      then ext_type (mime_TypeByExtension wd') key ''application/octet-stream''
                      else MimeType e')
           in \<exists>wd2 w2. dbhandlerMiss_v1 wd' w r key oldobj' = Return (wd2, w2)
                \<and> header w2 ''Content-Type'' = Some (HText ct)
                \<and> (\<exists>obj. dbcache wd2 key = Some obj \<and> entry obj = Some (e'\<lparr>MimeType := ct\<rparr>)))"
    by (clarsimp simp: handler_v1_defs reuses_v1_def writer_defs split: option.splits)
  show "GetMetadata (db wd) (folder wd @ key) = Inr (FileMeta e) \<and> \<not> reuses oldobj e
      \<and> Download (db wd) (folder wd @ key) = Inr (e2, Inr bs) \<and> status w = None
      \<longrightarrow> (let ct = ext_type (mime_TypeByExtension wd) key ''application/octet-stream''
           in \<exists>wd2 w2. dbhandlerMiss wd w r key oldobj = Return (wd2, w2)
                \<and> header w2 ''Content-Type'' = Some (HText ct)
                \<and> (\<exists>obj. dbcache wd2 key = Some obj \<and> contentType obj = ct))"
    by (clarsimp simp: handler_defs reuses_def writer_defs split: option.splits)
qed

theorem content_type_correction_witness:
  "Metadata ex_remote_v1 ''/Public/a.json'' = Inr ex_entry_v1 \<and> \<not> IsDir ex_entry_v1
   \<and> MimeType ex_entry_v1 = ''application/octet-stream''
   \<and> \<not> reuses_v1 None ex_entry_v1
   \<and> Download_v1 ex_remote_v1 ''/Public/a.json'' = Inr (Inr ''{}'')
   \<and> header (snd (reached (dbhandlerMiss_v1 ex_world_v1 newResponse (ex_request ''/a.json'')
                              ''/a.json'' None))) ''Content-Type''
       = Some (HText ''application/json'')
   \<and> GetMetadata ex_remote ''/Public/a.json'' = Inr (FileMeta ex_meta)
   \<and> \<not> reuses None ex_meta
   \<and> Download ex_remote ''/Public/a.json'' = Inr (ex_meta, Inr ''{}'')
   \<and> header (snd (reached (dbhandlerMiss ex_world newResponse (ex_request ''/a.json'')
                              ''/a.json'' None))) ''Content-Type''
       = Some (HText ''application/json'')"
proof -
  have h': "Metadata (db ex_world_v1) (folder ex_world_v1 @ ''/a.json'') = Inr ex_entry_v1
            \<and> \<not> IsDir ex_entry_v1 \<and> \<not> reuses_v1 None ex_entry_v1
            \<and> Download_v1 (db ex_world_v1) (folder ex_world_v1 @ ''/a.json'') = Inr (Inr ''{}'')
            \<and> status newResponse = None"
    by (simp add: example_defs reuses_v1_def newResponse_def)
  have h: "GetMetadata (db ex_world) (folder ex_world @ ''/a.json'') = Inr (FileMeta ex_meta)
           \<and> \<not> reuses None ex_meta
           \<and> Download (db ex_world) (folder ex_world @ ''/a.json'') = Inr (ex_meta, Inr ''{}'')
           \<and> status newResponse = None"
    by (simp add: example_defs reuses_def newResponse_def)
  have ct: "ext_type (mime_TypeByExtension ex_world) ''/a.json'' ''application/octet-stream''
              = ''application/json''"
           "ext_type (mime_TypeByExtension ex_world_v1) ''/a.json'' ''application/octet-stream''
              = ''application/json''"
           "MimeType ex_entry_v1 = ''application/octet-stream''"
    by (simp_all add: ext_type_def example_defs)
  note t = content_type_correction
    [where wd' = ex_world_v1 and key = "''/a.json''" and e' = ex_entry_v1 and oldobj' = None
       and bs = "''{}''" and w = newResponse and r = "ex_request ''/a.json''"
       and wd = ex_world and e = ex_meta and oldobj = None and ?e2.0 = ex_meta]
  from t h' ct have a:
    "header (snd (reached (dbhandlerMiss_v1 ex_world_v1 newResponse (ex_request ''/a.json'')
                             ''/a.json'' None))) ''Content-Type''
       = Some (HText ''application/json'')"
    by (auto simp: Let_def)
  from t h ct have b:
    "header (snd (reached (dbhandlerMiss ex_world newResponse (ex_request ''/a.json'')
                             ''/a.json'' None))) ''Content-Type''
       = Some (HText ''application/json'')"
    by (auto simp: Let_def)
  from a b h h' ct show ?thesis
    by (simp add: ex_world_def ex_world_v1_def)
qed

text \<open>
  C1, as the claim has it, fails on lines 360-425. The remote store answers with a
  revision and a time and reports no type, neither the fallback nor another; the file is
  served as \<^verbatim>\<open>application/json\<close> all the same, on the extension of its path alone.
\<close>

theorem content_type_counterexample:
  "GetMetadata (db ex_world) ''/Public/a.json'' = Inr (FileMeta \<lparr>Rev = ''r1'', ServerModified = 7\<rparr>)
   \<and> Download (db ex_world) ''/Public/a.json''
       = Inr (\<lparr>Rev = ''r1'', ServerModified = 7\<rparr>, Inr ''{}'')
   \<and> header (snd (reached (dbhandler ex_world newResponse (ex_request ''/a.json''))))
        ''Content-Type''
       = Some (HText ''application/json'')
   \<and> header (snd (reached (dbhandler ex_world newResponse (ex_request ''/README''))))
        ''Content-Type''
       = Some (HText ''application/octet-stream'')"
  by (simp add: handler_defs example_defs writer_defs ext_type_def)

subsection \<open>Not found, folders and failures\<close>

text \<open>
  A path that the remote store reports as not found is answered by \<^verbatim>\<open>dbhandlerNotFound\<close>
  after the one metadata call, in both revisions; so is a folder in lines 120-124.
\<close>

lemma not_found_is_cached:
  "GetMetadata (db wd) (folder wd @ key) = Inl err \<Longrightarrow> is_not_found err \<Longrightarrow>
   dbhandlerMiss wd w r key oldobj
     = dbhandlerNotFound (wd\<lparr>trace := trace wd @ [RemoteMetadata (folder wd @ key)]\<rparr>) w r key"
  by (simp add: dbhandlerMiss_def db_GetMetadata_def is_not_found_def split: error.splits)

lemma not_found_is_cached_v1:
  "Metadata (db wd) (folder wd @ key) = Inl err \<Longrightarrow> is_not_found_v1 err \<Longrightarrow>
   dbhandlerMiss_v1 wd w r key oldobj
     = dbhandlerNotFound_v1 (wd\<lparr>trace := trace wd @ [RemoteMetadata (folder wd @ key)]\<rparr>) w r key"
  by (simp add: dbhandlerMiss_v1_def db_Metadata_v1_def is_not_found_v1_def split: error.splits)

lemma directory_is_not_found_v1:
  "Metadata (db wd) (folder wd @ key) = Inr e \<Longrightarrow> IsDir e \<Longrightarrow>
   dbhandlerMiss_v1 wd w r key oldobj
     = dbhandlerNotFound_v1 (wd\<lparr>trace := trace wd @ [RemoteMetadata (folder wd @ key)]\<rparr>) w r key"
  by (simp add: dbhandlerMiss_v1_def db_Metadata_v1_def)

text \<open>
  In lines 374-377 the call of \<^verbatim>\<open>dbhandlerNotFound\<close> for a folder is not followed by a
  \<^verbatim>\<open>return\<close>. With no old object the handler goes on to download the folder.
\<close>

lemma directory_is_downloaded:
  "GetMetadata (db wd) (folder wd @ key) = Inr FolderMeta \<Longrightarrow>
   \<exists>rest. trace (fst (reached (dbhandlerMiss wd w r key None)))
            = trace wd @ [RemoteMetadata (folder wd @ key), CacheSet key,
                          RemoteDownload (folder wd @ key)] @ rest"
  by (auto simp: handler_defs Let_def split: sum.splits prod.splits)

text \<open>
  C4 fails on lines 360-425. The request is for \<^verbatim>\<open>/docs\<close>, a folder of the remote store,
  which refuses to download it. With an empty cache, the handler stores the negative object
  and writes the not-found response, as for a missing path, and then calls the remote store
  once more, for the download, and appends the error of that call to the body. With a
  stale positive object in the cache, it stores the negative object, writes the not-found
  response and panics.
\<close>

theorem directory_request_goes_on:
  "dbhandler ex_world newResponse (ex_request ''/docs'')
     = Return (ex_world\<lparr>dbcache := newcache(''/docs'' \<mapsto> ex_negative),
                         trace := [CacheGet ''/docs'', RemoteMetadata ''/Public/docs'',
                                   CacheSet ''/docs'', RemoteDownload ''/Public/docs'']\<rparr>,
               \<lparr>header = [''Content-Type'' \<mapsto> HText ''text/plain; charset=utf-8'',
                          ''X-Content-Type-Options'' \<mapsto> HText ''nosniff''],
                status = Some 404,
                body = ''File not found'' @ [LF] @ ''path/not_file/..'' @ [LF]\<rparr>)
   \<and> dbhandler (ex_world\<lparr>lmod := 20, dbcache := newcache(''/docs'' \<mapsto> ex_obj)\<rparr>) newResponse
        (ex_request ''/docs'')
     = Panic (ex_world\<lparr>lmod := 20, dbcache := newcache(''/docs'' \<mapsto> ex_negative),
                        trace := [CacheGet ''/docs'', RemoteMetadata ''/Public/docs'',
                                  CacheSet ''/docs'']\<rparr>,
              \<lparr>header = [''Content-Type'' \<mapsto> HText ''text/plain; charset=utf-8'',
                         ''X-Content-Type-Options'' \<mapsto> HText ''nosniff''],
               status = Some 404,
               body = ''File not found'' @ [LF]\<rparr>)"
  by (simp add: handler_defs example_defs writer_defs)

text \<open>
  A metadata call that fails otherwise than with not found, and a download or a read that
  fails for a file, leave the cache as it was and answer 500 with the text of the error.
\<close>

lemma metadata_failure_leaves_cache:
  "GetMetadata (db wd) (folder wd @ key) = Inl err \<Longrightarrow> \<not> is_not_found err \<Longrightarrow>
   dbhandlerMiss wd w r key oldobj
     = Return (wd\<lparr>trace := trace wd @ [RemoteMetadata (folder wd @ key)]\<rparr>,
               http_Error w (Error_text err) 500)"
  by (simp add: dbhandlerMiss_def db_GetMetadata_def is_not_found_def split: error.splits)

lemma download_failure_leaves_cache:
  "GetMetadata (db wd) (folder wd @ key) = Inr (FileMeta e) \<Longrightarrow> \<not> reuses oldobj e \<Longrightarrow>
   Download (db wd) (folder wd @ key) = Inl err
     \<or> Download (db wd) (folder wd @ key) = Inr (e2, Inl err) \<Longrightarrow>
   dbhandlerMiss wd w r key oldobj
     = Return (wd\<lparr>trace := trace wd @ [RemoteMetadata (folder wd @ key),
                                          RemoteDownload (folder wd @ key)]\<rparr>,
               http_Error w (Error_text err) 500)"
  by (auto simp: dbhandlerMiss_def dbhandlerMiss_download_def db_GetMetadata_def db_Download_def
      reuses_def split: option.splits)

lemma failure_leaves_cache_v1:
  "(Metadata (db wd) (folder wd @ key) = Inl err \<and> \<not> is_not_found_v1 err
      \<longrightarrow> dbhandlerMiss_v1 wd w r key oldobj
            = Return (wd\<lparr>trace := trace wd @ [RemoteMetadata (folder wd @ key)]\<rparr>,
                      http_Error w (Error_text err) 500))
   \<and> (Metadata (db wd) (folder wd @ key) = Inr e \<and> \<not> IsDir e \<and> \<not> reuses_v1 oldobj e
       \<and> (Download_v1 (db wd) (folder wd @ key) = Inl err
           \<or> Download_v1 (db wd) (folder wd @ key) = Inr (Inl err))
      \<longrightarrow> dbhandlerMiss_v1 wd w r key oldobj
            = Return (wd\<lparr>trace := trace wd @ [RemoteMetadata (folder wd @ key),
                                                 RemoteDownload (folder wd @ key)]\<rparr>,
                      http_Error w (Error_text err) 500))"
  by (auto simp: dbhandlerMiss_v1_def dbhandlerMiss_download_v1_def db_Metadata_v1_def
      db_Download_v1_def reuses_v1_def is_not_found_v1_def split: option.splits error.splits)

text \<open>
  C5 fails on lines 360-425 for a folder, by the missing \<^verbatim>\<open>return\<close> of line 376. The
  request is for \<^verbatim>\<open>/docs\<close> with an empty cache. The download fails, and yet the cache has
  changed under the path, from nothing to the negative object, and the status of the answer
  is 404, not 500.
\<close>

theorem failed_download_of_directory:
  "Download (db ex_world) (folder ex_world @ ''/docs'') = Inl (OtherError ''path/not_file/..'')
   \<and> dbcache ex_world ''/docs'' = None
   \<and> dbcache (fst (reached (dbhandler ex_world newResponse (ex_request ''/docs'')))) ''/docs''
       = Some ex_negative
   \<and> status (snd (reached (dbhandler ex_world newResponse (ex_request ''/docs'')))) = Some 404"
  by (simp add: handler_defs example_defs writer_defs)

end
